theory Spec2Isabelle
  imports Complex_Main "HOL-Library.AList"
begin

section \<open>Errors\<close>

text \<open>
  Every exception that can leave a method of \<^verbatim>\<open>ChordCutter\<close> is a value. The
  string is the message of the Python exception. \<open>RuntimeError\<close> is what
  \<^verbatim>\<open>sitk.ReadImage\<close> raises for a file it cannot read; its string is the path of that
  file. \<open>ROIException\<close> stands for any failure of \<^verbatim>\<open>rt_utils\<close> while reading the chord
  structure.
\<close>

datatype error =
    ValueError string
  | TypeError string
  | RuntimeError string
  | ROIException

section \<open>Three-dimensional arrays\<close>

text \<open>
  A numpy array of three axes is its shape together with its elements. Only the elements
  at indices inside the shape are part of the array.
\<close>

record 'a ndarray =
  dim0 :: nat
  dim1 :: nat
  dim2 :: nat
  item :: "nat \<Rightarrow> nat \<Rightarrow> nat \<Rightarrow> 'a"

text \<open>\<^verbatim>\<open>np.swapaxes(a,0,2)\<close>, \<^verbatim>\<open>np.swapaxes(a,0,1)\<close> and \<^verbatim>\<open>np.flip(a,0)\<close>.\<close>

definition swapaxes_0_2 :: "'a ndarray \<Rightarrow> 'a ndarray" where
  "swapaxes_0_2 a =
     \<lparr>dim0 = dim2 a, dim1 = dim1 a, dim2 = dim0 a, item = (\<lambda>i j k. item a k j i)\<rparr>"

definition swapaxes_0_1 :: "'a ndarray \<Rightarrow> 'a ndarray" where
  "swapaxes_0_1 a =
     \<lparr>dim0 = dim1 a, dim1 = dim0 a, dim2 = dim2 a, item = (\<lambda>i j k. item a j i k)\<rparr>"

definition flip_0 :: "'a ndarray \<Rightarrow> 'a ndarray" where
  "flip_0 a =
     \<lparr>dim0 = dim0 a, dim1 = dim1 a, dim2 = dim2 a, item = (\<lambda>i j k. item a (dim0 a - 1 - i) j k)\<rparr>"

text \<open>\<^verbatim>\<open>a.sum()\<close> and \<^verbatim>\<open>a.sum((0,1))\<close>; the second is an array of one axis, a list.\<close>

definition sum_all :: "('a::comm_monoid_add) ndarray \<Rightarrow> 'a" where
  "sum_all a = (\<Sum>i<dim0 a. \<Sum>j<dim1 a. \<Sum>k<dim2 a. item a i j k)"

definition sum_0_1 :: "('a::comm_monoid_add) ndarray \<Rightarrow> 'a list" where
  "sum_0_1 a = map (\<lambda>k. \<Sum>i<dim0 a. \<Sum>j<dim1 a. item a i j k) [0..<dim2 a]"

text \<open>\<^verbatim>\<open>np.where(b)[0]\<close> for a boolean array \<open>b\<close> of one axis: the indices of its true
  elements, ascending.\<close>

definition np_where :: "bool list \<Rightarrow> nat list" where
  "np_where b = filter (\<lambda>i. b ! i) [0..<length b]"

text \<open>\<^verbatim>\<open>arr.min()\<close> and \<^verbatim>\<open>arr.max()\<close>: numpy raises ValueError on an array of size zero.\<close>

definition amin :: "nat list \<Rightarrow> error + nat" where
  "amin arr = (case arr of
       [] \<Rightarrow> Inl (ValueError ''zero-size array to reduction operation minimum which has no identity'')
     | x # xs \<Rightarrow> Inr (fold min xs x))"

definition amax :: "nat list \<Rightarrow> error + nat" where
  "amax arr = (case arr of
       [] \<Rightarrow> Inl (ValueError ''zero-size array to reduction operation maximum which has no identity'')
     | x # xs \<Rightarrow> Inr (fold max xs x))"

section \<open>The class ChordCutter\<close>

text \<open>The attributes of an instance. An attribute that can hold \<^verbatim>\<open>None\<close> is an option.\<close>

record ChordCutter =
  RS_path :: "string option"
  vertebrae_RS_path :: "string option"
  dcm_input_path :: string
  chord_name :: string
  ct_nifti_path :: "string option"
  seg_path :: "string option"
  vertebrae :: "string list"

subsection \<open>The list of vertebrae\<close>

definition add_vertebrae :: "string \<Rightarrow> ChordCutter \<Rightarrow> ChordCutter" where
  "add_vertebrae vert c =
     (if vert \<notin> set (vertebrae c) then c\<lparr>vertebrae := vertebrae c @ [vert]\<rparr> else c)"

definition remove_all_vertebrae :: "ChordCutter \<Rightarrow> ChordCutter" where
  "remove_all_vertebrae c = c\<lparr>vertebrae := []\<rparr>"

definition cervical :: "string list" where
  "cervical = [''vertebrae_C1'', ''vertebrae_C2'', ''vertebrae_C3'', ''vertebrae_C4'',
               ''vertebrae_C5'', ''vertebrae_C6'', ''vertebrae_C7'']"

definition thorax :: "string list" where
  "thorax = [''vertebrae_T1'', ''vertebrae_T2'', ''vertebrae_T3'', ''vertebrae_T4'',
             ''vertebrae_T5'', ''vertebrae_T6'', ''vertebrae_T7'', ''vertebrae_T8'',
             ''vertebrae_T9'', ''vertebrae_T10'', ''vertebrae_T11'', ''vertebrae_T12'']"

definition lumbar :: "string list" where
  "lumbar = [''vertebrae_L1'', ''vertebrae_L2'', ''vertebrae_L3'', ''vertebrae_L4'',
             ''vertebrae_L5'']"

text \<open>The loop \<^verbatim>\<open>for v in [...]: self.add_vertebrae(v)\<close>.\<close>

fun add_each :: "string list \<Rightarrow> ChordCutter \<Rightarrow> ChordCutter" where
  "add_each [] c = c"
| "add_each (v # vs) c = add_each vs (add_vertebrae v c)"

definition add_vertebrae_group :: "string \<Rightarrow> ChordCutter \<Rightarrow> error + ChordCutter" where
  "add_vertebrae_group vgroup c =
     (if vgroup = ''cervical'' then Inr (add_each cervical c)
      else if vgroup = ''thorax'' then Inr (add_each thorax c)
      else if vgroup = ''lumbar'' then Inr (add_each lumbar c)
      else Inl (ValueError ''vertebrae groups: cervical, thorax, lumbar''))"

text \<open>Two calls in a row; the exception of the first call ends the sequence.\<close>

definition add_vertebrae_group_twice :: "string \<Rightarrow> ChordCutter \<Rightarrow> error + ChordCutter" where
  "add_vertebrae_group_twice vgroup c =
     (case add_vertebrae_group vgroup c of
        Inl e \<Rightarrow> Inl e
      | Inr c' \<Rightarrow> add_vertebrae_group vgroup c')"

section \<open>Files and external libraries\<close>

text \<open>
  What the method reads from outside the program is a parameter of the model.
  \<open>ReadImage E path\<close> is the array \<^verbatim>\<open>sitk.GetArrayFromImage(sitk.ReadImage(path))\<close>, with
  axes (z, y, x), and \<open>None\<close> when \<^verbatim>\<open>sitk.ReadImage\<close> raises: there is no file at
  \<open>path\<close>, or it is not an image. \<open>get_roi_mask E dcm_path rs_path roi_name\<close> is the boolean
  mask \<^verbatim>\<open>RTStructBuilder.create_from(dcm_path,rs_path).get_roi_mask_by_name(roi_name)\<close>,
  and \<open>None\<close> when one of the two calls raises.
\<close>

record env =
  ReadImage :: "string \<Rightarrow> int ndarray option"
  get_roi_mask :: "string \<Rightarrow> string option \<Rightarrow> string \<Rightarrow> bool ndarray option"

definition load_nifti :: "env \<Rightarrow> string \<Rightarrow> bool \<Rightarrow> error + int ndarray" where
  "load_nifti E path flip =
     (case ReadImage E path of
        None \<Rightarrow> Inl (RuntimeError path)
      | Some img_ar \<Rightarrow>
          let img_ar = swapaxes_0_2 img_ar;
              img_ar = swapaxes_0_1 img_ar
          in Inr (if flip then flip_0 img_ar else img_ar))"

definition load_rs :: "env \<Rightarrow> string \<Rightarrow> string option \<Rightarrow> string \<Rightarrow> error + bool ndarray" where
  "load_rs E dcm_path rs_path roi_name =
     (case get_roi_mask E dcm_path rs_path roi_name of
        None \<Rightarrow> Inl ROIException
      | Some roi_mask \<Rightarrow> Inr roi_mask)"

text \<open>\<^verbatim>\<open>os.path.join(a, b)\<close> of \<^verbatim>\<open>posixpath\<close>, for two components.\<close>

definition join :: "string \<Rightarrow> string \<Rightarrow> string" where
  "join a b =
     (if b \<noteq> [] \<and> hd b = CHR ''/'' then b
      else if a = [] \<or> last a = CHR ''/'' then a @ b
      else a @ ''/'' @ b)"

section \<open>Cutting the chord\<close>

text \<open>\<^verbatim>\<open>np.zeros(shape)\<close>: an array of float64 zeros.\<close>

definition zeros :: "nat \<Rightarrow> nat \<Rightarrow> nat \<Rightarrow> real ndarray" where
  "zeros n0 n1 n2 = \<lparr>dim0 = n0, dim1 = n1, dim2 = n2, item = (\<lambda>i j k. 0)\<rparr>"

text \<open>
  The assignment \<^verbatim>\<open>chord_t[:,:,minv:maxv] = chord[:,:,minv:maxv]\<close>, for two arrays of one
  shape. A Python slice \<^verbatim>\<open>minv:maxv\<close> holds the indices from \<open>minv\<close> up to, and without,
  \<open>maxv\<close>. The boolean \<^verbatim>\<open>True\<close> is stored as 1.0, \<^verbatim>\<open>False\<close> as 0.0.
\<close>

definition assign_slices :: "real ndarray \<Rightarrow> bool ndarray \<Rightarrow> nat \<Rightarrow> nat \<Rightarrow> real ndarray" where
  "assign_slices chord_t chord minv maxv =
     chord_t\<lparr>item := (\<lambda>i j k. if minv \<le> k \<and> k < maxv then of_bool (item chord i j k)
                              else item chord_t i j k)\<rparr>"

text \<open>\<^verbatim>\<open>np.ma.getmask(np.ma.masked_greater(a,0))\<close>, for an array with an element above 0.\<close>

definition masked_greater_0 :: "real ndarray \<Rightarrow> bool ndarray" where
  "masked_greater_0 a =
     \<lparr>dim0 = dim0 a, dim1 = dim1 a, dim2 = dim2 a, item = (\<lambda>i j k. item a i j k > 0)\<rparr>"

text \<open>
  Line 200: \<^verbatim>\<open>arr_th = np.where((slice/total)>T)[0]\<close>, the indices z of the slices whose
  share of the mask is above T. The division of two integer arrays is the true division;
  it is taken exactly here, as is the comparison with the float \<open>T\<close>.
\<close>

definition arr_th :: "real \<Rightarrow> int list \<Rightarrow> int \<Rightarrow> nat list" where
  "arr_th T slice_z total_z =
     np_where (map (\<lambda>n. real_of_int n / real_of_int total_z > T) slice_z)"

text \<open>
  The two dictionaries that the loop of \<open>cut_chord\<close> fills. A Python dictionary keeps its
  keys in the order of their first insertion, which is what \<open>AList.update\<close> does.
\<close>

record loop_vars =
  values_d :: "(string \<times> nat \<times> nat) list"
  all_seg_chord_masks :: "(string \<times> real ndarray) list"

text \<open>Lines 189 to 192: the mask of a vertebra is read from the folder \<^verbatim>\<open>self._seg_path\<close>.
  With \<^verbatim>\<open>None\<close> for the folder, \<^verbatim>\<open>join\<close> raises TypeError.\<close>

definition load_vertebra :: "env \<Rightarrow> ChordCutter \<Rightarrow> string \<Rightarrow> error + int ndarray" where
  "load_vertebra E c v =
     (case seg_path c of
        None \<Rightarrow> Inl (TypeError ''expected str, bytes or os.PathLike object, not NoneType'')
      | Some sp \<Rightarrow> load_nifti E (join sp (v @ ''.nii.gz'')) True)"

text \<open>Lines 200 to 202: \<^verbatim>\<open>minv = arr_th.min()\<close> and \<^verbatim>\<open>maxv = arr_th.max()\<close>.\<close>

definition slice_range :: "real \<Rightarrow> int ndarray \<Rightarrow> error + nat \<times> nat" where
  "slice_range T vert =
     (let slice = sum_0_1 vert;
          total = sum_all vert
      in case amin (arr_th T slice total) of
           Inl e \<Rightarrow> Inl e
         | Inr minv \<Rightarrow>
        (case amax (arr_th T slice total) of
           Inl e \<Rightarrow> Inl e
         | Inr maxv \<Rightarrow> Inr (minv, maxv)))"

text \<open>Lines 207 and 208: the chord confined to the slices of a vertebra.\<close>

definition confine :: "bool ndarray \<Rightarrow> nat \<Rightarrow> nat \<Rightarrow> real ndarray" where
  "confine chord minv maxv =
     assign_slices (zeros (dim0 chord) (dim1 chord) (dim2 chord)) chord minv maxv"

text \<open>
  The body of the loop \<^verbatim>\<open>for v in self._vertebrae\<close> (lines 189 to 213). \<open>chord\<close> is
  \<open>Some\<close> of the chord mask when \<^verbatim>\<open>save_as_RS\<close> is true, \<open>None\<close> otherwise. What the
  method prints under \<^verbatim>\<open>verbose\<close> is left out.
\<close>

definition cut_vertebra ::
  "env \<Rightarrow> ChordCutter \<Rightarrow> real \<Rightarrow> bool ndarray option \<Rightarrow> string \<Rightarrow> loop_vars \<Rightarrow> error + loop_vars" where
  "cut_vertebra E c T chord v s =
     (case load_vertebra E c v of
        Inl e \<Rightarrow> Inl e
      | Inr vert \<Rightarrow>
          if sum_all vert \<le> 0 then Inr s
          else
            (case slice_range T vert of
               Inl e \<Rightarrow> Inl e
             | Inr (minv, maxv) \<Rightarrow>
                 let s = s\<lparr>values_d := AList.update v (minv, maxv) (values_d s)\<rparr>
                 in (case chord of
                       None \<Rightarrow> Inr s
                     | Some chord \<Rightarrow>
                         let chord_t = confine chord minv maxv
                         in if sum_all chord_t < 1 then Inr s
                            else Inr (s\<lparr>all_seg_chord_masks :=
                                          AList.update v chord_t (all_seg_chord_masks s)\<rparr>))))"

fun cut_loop ::
  "env \<Rightarrow> ChordCutter \<Rightarrow> real \<Rightarrow> bool ndarray option \<Rightarrow> string list \<Rightarrow> loop_vars \<Rightarrow> error + loop_vars" where
  "cut_loop E c T chord [] s = Inr s"
| "cut_loop E c T chord (v # vs) s =
     (case cut_vertebra E c T chord v s of
        Inl e \<Rightarrow> Inl e
      | Inr s' \<Rightarrow> cut_loop E c T chord vs s')"

text \<open>
  What a call of \<open>cut_chord\<close> leaves: the dictionary it returns and, when \<^verbatim>\<open>save_as_RS\<close>
  is true, the file it saves: its path and the regions added to it with \<^verbatim>\<open>add_roi\<close>, in
  order, each a name and a boolean mask. The calls of \<^verbatim>\<open>rt_utils\<close> that build and save
  the file (\<^verbatim>\<open>create_new\<close>, \<^verbatim>\<open>add_roi\<close>, \<^verbatim>\<open>save\<close>) are taken not to raise.
\<close>

record cut_output =
  returned :: "(string \<times> nat \<times> nat) list"
  saved :: "(string \<times> (string \<times> bool ndarray) list) option"

text \<open>The loop of lines 216 to 219.\<close>

definition add_rois :: "string list \<Rightarrow> (string \<times> real ndarray) list \<Rightarrow> (string \<times> bool ndarray) list" where
  "add_rois vs masks =
     concat (map (\<lambda>v. case map_of masks v of
                         None \<Rightarrow> []
                       | Some m \<Rightarrow> [(v, masked_greater_0 m)]) vs)"

definition cut_chord :: "env \<Rightarrow> ChordCutter \<Rightarrow> real \<Rightarrow> bool \<Rightarrow> error + cut_output" where
  "cut_chord E c T save_as_RS =
     (if save_as_RS then
        (case vertebrae_RS_path c of
           None \<Rightarrow> Inl (ValueError ''Must define vertebrae_RS_path'')
         | Some rs_dir \<Rightarrow>
        (case load_rs E (dcm_input_path c) (RS_path c) (chord_name c) of
           Inl e \<Rightarrow> Inl e
         | Inr chord \<Rightarrow>
        (case cut_loop E c T (Some chord) (vertebrae c) \<lparr>values_d = [], all_seg_chord_masks = []\<rparr> of
           Inl e \<Rightarrow> Inl e
         | Inr s \<Rightarrow>
             Inr \<lparr>returned = values_d s,
                  saved = Some (join rs_dir ''vertebrae.dcm'',
                                add_rois (vertebrae c) (all_seg_chord_masks s))\<rparr>)))
      else
        (case cut_loop E c T None (vertebrae c) \<lparr>values_d = [], all_seg_chord_masks = []\<rparr> of
           Inl e \<Rightarrow> Inl e
         | Inr s \<Rightarrow> Inr \<lparr>returned = values_d s, saved = None\<rparr>))"

text \<open>The names of the regions written to the saved file.\<close>

definition roi_names :: "cut_output \<Rightarrow> string list" where
  "roi_names out = (case saved out of None \<Rightarrow> [] | Some (path, rois) \<Rightarrow> map fst rois)"

section \<open>A scan of five slices\<close>

text \<open>
  Inputs on which the theorems below are run. The images have five axial slices of one
  row and two columns. \<open>image_on zs\<close> is the mask, as \<^verbatim>\<open>sitk\<close> reads it, that is 1 on the
  slices in \<open>zs\<close> and 0 elsewhere.
\<close>

definition image_on :: "nat list \<Rightarrow> int ndarray" where
  "image_on zs = \<lparr>dim0 = 5, dim1 = 1, dim2 = 2, item = (\<lambda>z y x. if z \<in> set zs then 1 else 0)\<rparr>"

text \<open>A mask that is thinner on slice 0: one voxel there, two on each of the slices 1 and 2.\<close>

definition image_tapered :: "int ndarray" where
  "image_tapered = \<lparr>dim0 = 5, dim1 = 1, dim2 = 2,
     item = (\<lambda>z y x. if z = 0 \<and> x = 0 then 1 else if z = 1 \<or> z = 2 then 1 else 0)\<rparr>"

definition chord_2_4 :: "bool ndarray" where
  "chord_2_4 = \<lparr>dim0 = 1, dim1 = 2, dim2 = 5, item = (\<lambda>i j k. 2 \<le> k)\<rparr>"

definition scan :: env where
  "scan = \<lparr>ReadImage = (\<lambda>path.
              if path = ''seg/vertebrae_C1.nii.gz'' then Some (image_on [0, 1])
              else if path = ''seg/vertebrae_C2.nii.gz'' then Some (image_on [2, 3])
              else if path = ''seg/vertebrae_C3.nii.gz'' then Some (image_on [4])
              else if path = ''seg/vertebrae_C4.nii.gz'' then Some (image_on [])
              else if path = ''seg/vertebrae_C6.nii.gz'' then Some (image_on [1, 3])
              else if path = ''seg/vertebrae_C7.nii.gz'' then Some image_tapered
              else None),
            get_roi_mask = (\<lambda>dcm_path rs_path roi_name.
              if roi_name = ''Moelle'' then Some chord_2_4 else None)\<rparr>"

text \<open>The array that \<open>load_nifti\<close> makes of \<open>image_on zs\<close>, with axes (y, x, z).\<close>

definition mask_on :: "nat list \<Rightarrow> int ndarray" where
  "mask_on zs = \<lparr>dim0 = 1, dim1 = 2, dim2 = 5, item = (\<lambda>i j k. if k \<in> set zs then 1 else 0)\<rparr>"

definition mask_tapered :: "int ndarray" where
  "mask_tapered = \<lparr>dim0 = 1, dim1 = 2, dim2 = 5,
     item = (\<lambda>i j k. if k = 0 \<and> j = 0 then 1 else if k = 1 \<or> k = 2 then 1 else 0)\<rparr>"

definition cutter :: "string list \<Rightarrow> ChordCutter" where
  "cutter vs = \<lparr>RS_path = Some ''dcm/RS.dcm'', vertebrae_RS_path = Some ''out'',
                dcm_input_path = ''dcm'', chord_name = ''Moelle'', ct_nifti_path = None,
                seg_path = Some ''seg'', vertebrae = vs\<rparr>"

section \<open>What the loop does to one vertebra\<close>

text \<open>
  Two notions for the proofs. The outcome of a vertebra is what the loop body finds for
  it, whatever the dictionaries hold: an exception, nothing (the mask is empty), or a
  range of slices. \<open>record_range\<close> is what the loop body then stores.
\<close>

definition vertebra_outcome :: "env \<Rightarrow> ChordCutter \<Rightarrow> real \<Rightarrow> string \<Rightarrow> error + (nat \<times> nat) option" where
  "vertebra_outcome E c T v =
     (case load_vertebra E c v of
        Inl e \<Rightarrow> Inl e
      | Inr vert \<Rightarrow>
          if sum_all vert \<le> 0 then Inr None
          else (case slice_range T vert of Inl e \<Rightarrow> Inl e | Inr r \<Rightarrow> Inr (Some r)))"

definition record_range :: "bool ndarray option \<Rightarrow> string \<Rightarrow> nat \<times> nat \<Rightarrow> loop_vars \<Rightarrow> loop_vars" where
  "record_range chord v r s =
     (let s' = s\<lparr>values_d := AList.update v r (values_d s)\<rparr>
      in case chord of
           None \<Rightarrow> s'
         | Some ch \<Rightarrow>
             if sum_all (confine ch (fst r) (snd r)) < 1 then s'
             else s'\<lparr>all_seg_chord_masks :=
                       AList.update v (confine ch (fst r) (snd r)) (all_seg_chord_masks s')\<rparr>)"

section \<open>Properties of the list of vertebrae\<close>

lemma vertebrae_add_vertebrae:
  "vertebrae (add_vertebrae v c) = (if v \<in> set (vertebrae c) then vertebrae c else vertebrae c @ [v])"
  by (simp add: add_vertebrae_def)

lemma add_vertebrae_present: "v \<in> set (vertebrae c) \<Longrightarrow> add_vertebrae v c = c"
  by (simp add: add_vertebrae_def)

lemma vertebrae_add_each_mono: "set (vertebrae c) \<subseteq> set (vertebrae (add_each vs c))"
proof (induction vs arbitrary: c)
  case Nil
  show ?case by simp
next
  case (Cons v vs)
  have "set (vertebrae c) \<subseteq> set (vertebrae (add_vertebrae v c))"
    by (auto simp: vertebrae_add_vertebrae)
  also have "\<dots> \<subseteq> set (vertebrae (add_each vs (add_vertebrae v c)))"
    by (rule Cons.IH)
  finally show ?case by simp
qed

lemma add_each_present: "set vs \<subseteq> set (vertebrae c) \<Longrightarrow> add_each vs c = c"
  by (induction vs arbitrary: c) (auto simp: add_vertebrae_present)

lemma add_each_covers: "set vs \<subseteq> set (vertebrae (add_each vs c))"
proof (induction vs arbitrary: c)
  case Nil
  show ?case by simp
next
  case (Cons v vs)
  have "v \<in> set (vertebrae (add_vertebrae v c))"
    by (simp add: vertebrae_add_vertebrae)
  then have "v \<in> set (vertebrae (add_each vs (add_vertebrae v c)))"
    using vertebrae_add_each_mono by blast
  with Cons.IH [of "add_vertebrae v c"] show ?case by simp
qed

lemma add_each_twice: "add_each vs (add_each vs c) = add_each vs c"
  by (rule add_each_present) (rule add_each_covers)

lemma add_each_fresh:
  "distinct vs \<Longrightarrow> set vs \<inter> set (vertebrae c) = {} \<Longrightarrow>
   vertebrae (add_each vs c) = vertebrae c @ vs"
  by (induction vs arbitrary: c) (auto simp: vertebrae_add_vertebrae)

lemma distinct_add_each: "distinct (vertebrae c) \<Longrightarrow> distinct (vertebrae (add_each vs c))"
  by (induction vs arbitrary: c) (auto simp: vertebrae_add_vertebrae)

lemma add_each_absent:
  "distinct vs \<Longrightarrow>
   vertebrae (add_each vs c) = vertebrae c @ filter (\<lambda>v. v \<notin> set (vertebrae c)) vs"
proof (induction vs arbitrary: c)
  case Nil
  show ?case by simp
next
  case (Cons v vs)
  show ?case
  proof (cases "v \<in> set (vertebrae c)")
    case True
    with Cons show ?thesis by (simp add: add_vertebrae_present)
  next
    case False
    from Cons.prems have "filter (\<lambda>w. w \<noteq> v \<and> w \<notin> set (vertebrae c)) vs
                          = filter (\<lambda>w. w \<notin> set (vertebrae c)) vs"
      by (intro filter_cong) auto
    with False Cons show ?thesis by (simp add: vertebrae_add_vertebrae)
  qed
qed

text \<open>
  Claim C9. On a cutter whose list of vertebrae is empty (as the constructor and
  \<open>remove_all_vertebrae\<close> leave it), \<open>add_vertebrae_group ''cervical''\<close> succeeds and the
  list is then exactly the seven cervical identifiers, \<open>vertebrae_C1\<close> to \<open>vertebrae_C7\<close>,
  in that order. Two calls in a row succeed as well and leave the same list of seven
  identifiers, without duplicates. On any cutter, the call appends, in that order, those
  of the seven identifiers that the list does not hold yet and changes nothing else of
  the list, and a second call changes nothing at all.
\<close>

theorem add_vertebrae_group_cervical:
  "(\<exists>c'. add_vertebrae_group ''cervical'' (remove_all_vertebrae c) = Inr c'
        \<and> vertebrae c' = [''vertebrae_C1'', ''vertebrae_C2'', ''vertebrae_C3'', ''vertebrae_C4'',
                          ''vertebrae_C5'', ''vertebrae_C6'', ''vertebrae_C7''])
   \<and> (\<exists>c''. add_vertebrae_group_twice ''cervical'' (remove_all_vertebrae c) = Inr c''
        \<and> vertebrae c'' = [''vertebrae_C1'', ''vertebrae_C2'', ''vertebrae_C3'', ''vertebrae_C4'',
                           ''vertebrae_C5'', ''vertebrae_C6'', ''vertebrae_C7'']
        \<and> distinct (vertebrae c''))
   \<and> (\<exists>d'. add_vertebrae_group ''cervical'' d = Inr d'
        \<and> vertebrae d' = vertebrae d @ filter (\<lambda>v. v \<notin> set (vertebrae d))
                            [''vertebrae_C1'', ''vertebrae_C2'', ''vertebrae_C3'', ''vertebrae_C4'',
                             ''vertebrae_C5'', ''vertebrae_C6'', ''vertebrae_C7''])
   \<and> add_vertebrae_group_twice ''cervical'' d = add_vertebrae_group ''cervical'' d"
proof -
  have d: "distinct cervical"
    by (simp add: cervical_def)
  have one: "vertebrae (add_each cervical (remove_all_vertebrae c)) = cervical"
    using add_each_fresh [OF d, of "remove_all_vertebrae c"]
    by (simp add: remove_all_vertebrae_def)
  have twice: "add_vertebrae_group_twice ''cervical'' e = add_vertebrae_group ''cervical'' e" for e
    by (simp add: add_vertebrae_group_twice_def add_vertebrae_group_def add_each_twice)
  have c7: "[''vertebrae_C1'', ''vertebrae_C2'', ''vertebrae_C3'', ''vertebrae_C4'',
             ''vertebrae_C5'', ''vertebrae_C6'', ''vertebrae_C7''] = cervical"
    by (simp add: cervical_def)
  have g: "add_vertebrae_group ''cervical'' e = Inr (add_each cervical e)" for e
    by (simp add: add_vertebrae_group_def)
  show ?thesis
    unfolding c7 twice g using one d add_each_absent [OF d, of d] by simp
qed

section \<open>Minimum, maximum and the slices above the threshold\<close>

lemma amin_Inr: "amin xs = Inr m \<Longrightarrow> m \<in> set xs \<and> (\<forall>x\<in>set xs. m \<le> x)"
proof (cases xs)
  case Nil
  moreover assume "amin xs = Inr m"
  ultimately show ?thesis by (simp add: amin_def)
next
  case (Cons y ys)
  assume "amin xs = Inr m"
  with Cons have "m = fold min ys y" by (simp add: amin_def)
  then have "m = Min (set xs)" unfolding Cons by (simp only: Min.set_eq_fold)
  then show ?thesis using Cons by (metis List.finite_set Min_in Min_le list.distinct(1) set_empty)
qed

lemma amax_Inr: "amax xs = Inr m \<Longrightarrow> m \<in> set xs \<and> (\<forall>x\<in>set xs. x \<le> m)"
proof (cases xs)
  case Nil
  moreover assume "amax xs = Inr m"
  ultimately show ?thesis by (simp add: amax_def)
next
  case (Cons y ys)
  assume "amax xs = Inr m"
  with Cons have "m = fold max ys y" by (simp add: amax_def)
  then have "m = Max (set xs)" unfolding Cons by (simp only: Max.set_eq_fold)
  then show ?thesis using Cons by (metis List.finite_set Max_in Max_ge list.distinct(1) set_empty)
qed

lemma amin_nonempty: "xs \<noteq> [] \<Longrightarrow> \<exists>m. amin xs = Inr m"
  by (cases xs) (simp_all add: amin_def)

lemma amax_nonempty: "xs \<noteq> [] \<Longrightarrow> \<exists>m. amax xs = Inr m"
  by (cases xs) (simp_all add: amax_def)

lemma amin_empty:
  "amin [] = Inl (ValueError ''zero-size array to reduction operation minimum which has no identity'')"
  by (simp add: amin_def)

lemma set_arr_th:
  "set (arr_th T sl tot) = {z. z < length sl \<and> T < real_of_int (sl ! z) / real_of_int tot}"
  by (auto simp: arr_th_def np_where_def)

lemma length_sum_0_1: "length (sum_0_1 a) = dim2 a"
  by (simp add: sum_0_1_def)



lemma slice_range_Inr:
  assumes "slice_range T vert = Inr (mn, mx)"
  shows "mn \<in> set (arr_th T (sum_0_1 vert) (sum_all vert))"
    and "mx \<in> set (arr_th T (sum_0_1 vert) (sum_all vert))"
    and "\<forall>z \<in> set (arr_th T (sum_0_1 vert) (sum_all vert)). mn \<le> z \<and> z \<le> mx"
  using assms amin_Inr amax_Inr
  by (auto simp: slice_range_def Let_def split: sum.splits)

lemma slice_range_Inl:
  "arr_th T (sum_0_1 vert) (sum_all vert) = [] \<Longrightarrow>
   slice_range T vert = Inl (ValueError ''zero-size array to reduction operation minimum which has no identity'')"
  by (simp add: slice_range_def amin_def)

lemma slice_range_ok:
  "arr_th T (sum_0_1 vert) (sum_all vert) \<noteq> [] \<Longrightarrow> \<exists>r. slice_range T vert = Inr r"
  using amin_nonempty amax_nonempty
  by (fastforce simp: slice_range_def Let_def split: sum.splits)

section \<open>The loop over the vertebrae\<close>

lemma cut_vertebra_outcome:
  "cut_vertebra E c T chord v s =
     (case vertebra_outcome E c T v of
        Inl e \<Rightarrow> Inl e
      | Inr None \<Rightarrow> Inr s
      | Inr (Some r) \<Rightarrow> Inr (record_range chord v r s))"
  by (simp add: cut_vertebra_def vertebra_outcome_def record_range_def Let_def
           split: sum.splits option.splits prod.splits)

lemma cut_loop_ok:
  "(\<exists>s'. cut_loop E c T chord vs s = Inr s') \<longleftrightarrow> (\<forall>v\<in>set vs. \<exists>r. vertebra_outcome E c T v = Inr r)"
proof (induction vs arbitrary: s)
  case Nil
  show ?case by simp
next
  case (Cons x xs)
  show ?case
  proof (cases "vertebra_outcome E c T x")
    case (Inl e)
    then show ?thesis by (simp add: cut_vertebra_outcome)
  next
    case (Inr r)
    then show ?thesis
      using Cons.IH by (cases r) (simp_all add: cut_vertebra_outcome)
  qed
qed

lemma values_d_record_range:
  "map_of (values_d (record_range chord v r s)) = (map_of (values_d s))(v \<mapsto> r)"
  by (simp add: record_range_def Let_def update_conv' split: option.splits)

lemma cut_loop_values:
  "cut_loop E c T chord vs s = Inr s' \<Longrightarrow>
   map_of (values_d s') v =
     (if v \<in> set vs
      then (case vertebra_outcome E c T v of Inr (Some r) \<Rightarrow> Some r | _ \<Rightarrow> map_of (values_d s) v)
      else map_of (values_d s) v)"
proof (induction vs arbitrary: s)
  case Nil
  then show ?case by simp
next
  case (Cons x xs)
  from Cons.prems obtain o1 where o1: "vertebra_outcome E c T x = Inr o1"
    by (auto simp: cut_vertebra_outcome split: sum.splits)
  show ?case
  proof (cases o1)
    case None
    with o1 Cons.prems have "cut_loop E c T chord xs s = Inr s'"
      by (simp add: cut_vertebra_outcome)
    from Cons.IH [OF this] o1 None show ?thesis by auto
  next
    case (Some r)
    with o1 Cons.prems have "cut_loop E c T chord xs (record_range chord x r s) = Inr s'"
      by (simp add: cut_vertebra_outcome)
    from Cons.IH [OF this] o1 Some show ?thesis
      by (auto simp: values_d_record_range split: sum.splits option.splits)
  qed
qed

lemma cut_loop_error:
  "v \<in> set vs \<Longrightarrow> vertebra_outcome E c T v = Inl e \<Longrightarrow> \<exists>e'. cut_loop E c T chord vs s = Inl e'"
  using cut_loop_ok [of E c T chord vs s]
  by (cases "cut_loop E c T chord vs s") auto

lemma cut_chord_Inr:
  assumes "cut_chord E c T save_as_RS = Inr out"
  shows "\<exists>chord s. cut_loop E c T chord (vertebrae c) \<lparr>values_d = [], all_seg_chord_masks = []\<rparr> = Inr s
           \<and> returned out = values_d s
           \<and> (if save_as_RS
               then \<exists>ch. chord = Some ch
                      \<and> load_rs E (dcm_input_path c) (RS_path c) (chord_name c) = Inr ch
                      \<and> roi_names out = map fst (add_rois (vertebrae c) (all_seg_chord_masks s))
               else chord = None \<and> roi_names out = [])"
  using assms
  by (cases save_as_RS)
     (auto simp: cut_chord_def roi_names_def split: option.splits sum.splits)

lemma cut_chord_error:
  assumes "v \<in> set (vertebrae c)" and "vertebra_outcome E c T v = Inl e"
  shows "\<exists>e'. cut_chord E c T save_as_RS = Inl e'"
proof (cases "cut_chord E c T save_as_RS")
  case (Inl e')
  then show ?thesis by blast
next
  case (Inr out)
  from cut_chord_Inr [OF this] obtain chord s where
    "cut_loop E c T chord (vertebrae c) \<lparr>values_d = [], all_seg_chord_masks = []\<rparr> = Inr s"
    by blast
  with cut_loop_error [OF assms] show ?thesis by (metis sum.distinct(1))
qed

lemma returned_cut_chord:
  assumes "cut_chord E c T save_as_RS = Inr out"
  shows "map_of (returned out) v =
           (if v \<in> set (vertebrae c)
            then (case vertebra_outcome E c T v of Inr (Some r) \<Rightarrow> Some r | _ \<Rightarrow> None)
            else None)"
proof -
  from cut_chord_Inr [OF assms] obtain chord s where
    l: "cut_loop E c T chord (vertebrae c) \<lparr>values_d = [], all_seg_chord_masks = []\<rparr> = Inr s"
    and r: "returned out = values_d s"
    by blast
  show ?thesis
    unfolding r cut_loop_values [OF l]
    by (simp split: sum.splits option.splits)
qed

lemma vertebra_outcome_Some:
  assumes "vertebra_outcome E c T v = Inr (Some (mn, mx))"
  shows "\<exists>vert. load_vertebra E c v = Inr vert \<and> 0 < sum_all vert
           \<and> slice_range T vert = Inr (mn, mx)"
  using assms
  by (auto simp: vertebra_outcome_def split: sum.splits if_splits)

section \<open>The confined chord and the regions written\<close>

lemma item_confine:
  "item (confine chord minv maxv) i j k =
     (if minv \<le> k \<and> k < maxv then of_bool (item chord i j k) else 0)"
  by (simp add: confine_def assign_slices_def zeros_def)

lemma dims_confine:
  "dim0 (confine chord minv maxv) = dim0 chord"
  "dim1 (confine chord minv maxv) = dim1 chord"
  "dim2 (confine chord minv maxv) = dim2 chord"
  by (simp_all add: confine_def assign_slices_def zeros_def)

lemma sum_all_confine_empty:
  assumes "maxv \<le> minv"
  shows "sum_all (confine chord minv maxv) = 0"
proof -
  have "item (confine chord minv maxv) i j k = 0" for i j k
    using assms by (auto simp: item_confine)
  then show ?thesis by (simp add: sum_all_def)
qed

lemma masks_record_range:
  "map_of (all_seg_chord_masks (record_range (Some ch) v r s)) =
     (if sum_all (confine ch (fst r) (snd r)) < 1 then map_of (all_seg_chord_masks s)
      else (map_of (all_seg_chord_masks s))(v \<mapsto> confine ch (fst r) (snd r)))"
  by (simp add: record_range_def Let_def update_conv')

lemma cut_loop_masks:
  "cut_loop E c T (Some ch) vs s = Inr s' \<Longrightarrow>
   map_of (all_seg_chord_masks s') v =
     (if v \<in> set vs
      then (case vertebra_outcome E c T v of
              Inr (Some r) \<Rightarrow>
                if sum_all (confine ch (fst r) (snd r)) < 1 then map_of (all_seg_chord_masks s) v
                else Some (confine ch (fst r) (snd r))
            | _ \<Rightarrow> map_of (all_seg_chord_masks s) v)
      else map_of (all_seg_chord_masks s) v)"
proof (induction vs arbitrary: s)
  case Nil
  then show ?case by simp
next
  case (Cons x xs)
  from Cons.prems obtain o1 where o1: "vertebra_outcome E c T x = Inr o1"
    by (auto simp: cut_vertebra_outcome split: sum.splits)
  show ?case
  proof (cases o1)
    case None
    with o1 Cons.prems have "cut_loop E c T (Some ch) xs s = Inr s'"
      by (simp add: cut_vertebra_outcome)
    from Cons.IH [OF this] o1 None show ?thesis by auto
  next
    case (Some r)
    with o1 Cons.prems have "cut_loop E c T (Some ch) xs (record_range (Some ch) x r s) = Inr s'"
      by (simp add: cut_vertebra_outcome)
    from Cons.IH [OF this] o1 Some show ?thesis
      by (auto simp: masks_record_range split: sum.splits option.splits)
  qed
qed

lemma set_add_rois: "set (map fst (add_rois vs masks)) = {v \<in> set vs. map_of masks v \<noteq> None}"
  by (induction vs) (auto simp: add_rois_def split: option.splits)

lemma roi_names_cut_chord:
  assumes "cut_chord E c T True = Inr out"
    and "load_rs E (dcm_input_path c) (RS_path c) (chord_name c) = Inr chord"
  shows "v \<in> set (roi_names out) \<longleftrightarrow>
           v \<in> set (vertebrae c)
           \<and> (\<exists>r. vertebra_outcome E c T v = Inr (Some r)
                  \<and> \<not> sum_all (confine chord (fst r) (snd r)) < 1)"
proof -
  from cut_chord_Inr [OF assms(1)] assms(2) obtain s where
    l: "cut_loop E c T (Some chord) (vertebrae c) \<lparr>values_d = [], all_seg_chord_masks = []\<rparr> = Inr s"
    and n: "roi_names out = map fst (add_rois (vertebrae c) (all_seg_chord_masks s))"
    by auto
  show ?thesis
    unfolding n set_add_rois
    by (auto simp: cut_loop_masks [OF l] split: sum.splits option.splits if_splits)
qed

section \<open>The scan of five slices, evaluated\<close>

lemma cutter_simps:
  "vertebrae (cutter vs) = vs" "seg_path (cutter vs) = Some ''seg''"
  "vertebrae_RS_path (cutter vs) = Some ''out''" "RS_path (cutter vs) = Some ''dcm/RS.dcm''"
  "dcm_input_path (cutter vs) = ''dcm''" "chord_name (cutter vs) = ''Moelle''"
  by (simp_all add: cutter_def)

lemmas load_defs = load_vertebra_def load_nifti_def scan_def cutter_def join_def image_on_def
        image_tapered_def mask_on_def mask_tapered_def swapaxes_0_1_def swapaxes_0_2_def flip_0_def

lemma load_scan:
  "load_vertebra scan (cutter vs) ''vertebrae_C1'' = Inr (mask_on [0, 1])"
  "load_vertebra scan (cutter vs) ''vertebrae_C2'' = Inr (mask_on [2, 3])"
  "load_vertebra scan (cutter vs) ''vertebrae_C3'' = Inr (mask_on [4])"
  "load_vertebra scan (cutter vs) ''vertebrae_C4'' = Inr (mask_on [])"
  "load_vertebra scan (cutter vs) ''vertebrae_C5'' = Inl (RuntimeError ''seg/vertebrae_C5.nii.gz'')"
  "load_vertebra scan (cutter vs) ''vertebrae_C6'' = Inr (mask_on [1, 3])"
  "load_vertebra scan (cutter vs) ''vertebrae_C7'' = Inr mask_tapered"
  by (simp_all add: load_defs)

lemma load_rs_scan:
  "load_rs scan (dcm_input_path (cutter vs)) (RS_path (cutter vs)) (chord_name (cutter vs)) = Inr chord_2_4"
  by (simp add: load_rs_def scan_def cutter_def)

lemma sums_scan:
  "sum_all (mask_on [0, 1]) = 4" "sum_0_1 (mask_on [0, 1]) = [2, 2, 0, 0, 0]"
  "sum_all (mask_on [2, 3]) = 4" "sum_0_1 (mask_on [2, 3]) = [0, 0, 2, 2, 0]"
  "sum_all (mask_on [4]) = 2" "sum_0_1 (mask_on [4]) = [0, 0, 0, 0, 2]"
  "sum_all (mask_on []) = 0"
  "sum_all (mask_on [1, 3]) = 4" "sum_0_1 (mask_on [1, 3]) = [0, 2, 0, 2, 0]"
  "sum_all mask_tapered = 5" "sum_0_1 mask_tapered = [1, 2, 2, 0, 0]"
  by code_simp+

lemma outcomes_low:
  "vertebra_outcome scan (cutter vs) (1/50) ''vertebrae_C1'' = Inr (Some (0, 1))"
  "vertebra_outcome scan (cutter vs) (1/50) ''vertebrae_C2'' = Inr (Some (2, 3))"
  "vertebra_outcome scan (cutter vs) (1/50) ''vertebrae_C3'' = Inr (Some (4, 4))"
  "vertebra_outcome scan (cutter vs) (1/50) ''vertebrae_C4'' = Inr None"
  "vertebra_outcome scan (cutter vs) (1/50) ''vertebrae_C6'' = Inr (Some (1, 3))"
  by code_simp+

lemma outcomes_other:
  "vertebra_outcome scan (cutter vs) (3/5) ''vertebrae_C2'' =
     Inl (ValueError ''zero-size array to reduction operation minimum which has no identity'')"
  "vertebra_outcome scan (cutter vs) (3/5) ''vertebrae_C3'' = Inr (Some (4, 4))"
  "vertebra_outcome scan (cutter vs) (3/5) ''vertebrae_C6'' =
     Inl (ValueError ''zero-size array to reduction operation minimum which has no identity'')"
  "vertebra_outcome scan (cutter vs) (3/10) ''vertebrae_C6'' = Inr (Some (1, 3))"
  "vertebra_outcome scan (cutter vs) 0 ''vertebrae_C2'' = Inr (Some (2, 3))"
  "vertebra_outcome scan (cutter vs) (1/10) ''vertebrae_C7'' = Inr (Some (0, 2))"
  "vertebra_outcome scan (cutter vs) (3/10) ''vertebrae_C7'' = Inr (Some (1, 2))"
  "vertebra_outcome scan (cutter vs) (6/5) ''vertebrae_C2'' =
     Inl (ValueError ''zero-size array to reduction operation minimum which has no identity'')"
  "vertebra_outcome scan (cutter vs) (6/5) ''vertebrae_C4'' = Inr None"
  "vertebra_outcome scan (cutter vs) (1/50) ''vertebrae_C5'' = Inl (RuntimeError ''seg/vertebrae_C5.nii.gz'')"
  by code_simp+

lemma confined_scan:
  "sum_all (confine chord_2_4 0 1) = 0"
  "sum_all (confine chord_2_4 2 3) = 2"
  "sum_all (confine chord_2_4 4 4) = 0"
  "sum_all (confine chord_2_4 1 3) = 2"
  by code_simp+

lemma arr_th_scan:
  "arr_th (3/5) [0, 0, 2, 2, 0] 4 = []"
  "arr_th (6/5) [0, 0, 2, 2, 0] 4 = []"
  by code_simp+

lemma cut_scan_C6:
  "cut_chord scan (cutter [''vertebrae_C6'']) (3/10) False
     = Inr \<lparr>returned = [(''vertebrae_C6'', 1, 3)], saved = None\<rparr>"
  by (simp add: cut_chord_def cut_vertebra_outcome outcomes_other record_range_def cutter_simps)

section \<open>The ends of a range are slices above the threshold\<close>

text \<open>
  Claim C5. Whenever \<open>cut_chord\<close> returns and its dictionary holds a range
  \<open>(minv, maxv)\<close> for a vertebra, the mask of that vertebra was read, its total is
  positive, and both \<open>minv\<close> and \<open>maxv\<close> are slices of the mask whose count divided by
  the total is above \<open>T\<close>. This holds for every \<open>T\<close>, so for every \<open>T\<close> between 0 and 1.
  Slices strictly between the two need not be above \<open>T\<close>, as the run below shows on a
  mask that is empty on slice 2 and has the range (1, 3).
\<close>

theorem range_ends_qualify:
  assumes "cut_chord E c T save_as_RS = Inr out"
    and "map_of (returned out) v = Some (minv, maxv)"
  shows "\<exists>vert. load_vertebra E c v = Inr vert \<and> 0 < sum_all vert
           \<and> minv \<le> maxv \<and> maxv < dim2 vert
           \<and> T < real_of_int (sum_0_1 vert ! minv) / real_of_int (sum_all vert)
           \<and> T < real_of_int (sum_0_1 vert ! maxv) / real_of_int (sum_all vert)"
proof -
  from assms have "vertebra_outcome E c T v = Inr (Some (minv, maxv))"
    by (auto simp: returned_cut_chord split: if_splits sum.splits option.splits)
  from vertebra_outcome_Some [OF this] obtain vert where
    v: "load_vertebra E c v = Inr vert" "0 < sum_all vert"
    and r: "slice_range T vert = Inr (minv, maxv)"
    by blast
  from slice_range_Inr [OF r] have
    "minv \<in> {z. z < dim2 vert \<and> T < real_of_int (sum_0_1 vert ! z) / real_of_int (sum_all vert)}"
    "maxv \<in> {z. z < dim2 vert \<and> T < real_of_int (sum_0_1 vert ! z) / real_of_int (sum_all vert)}"
    "minv \<le> maxv"
    by (auto simp: set_arr_th length_sum_0_1)
  with v show ?thesis by blast
qed

text \<open>The theorem on the mask that occupies the slices 1 and 3, with \<open>T = 0.3\<close>.\<close>

theorem range_ends_qualify_witness:
  "cut_chord scan (cutter [''vertebrae_C6'']) (3/10) False
     = Inr \<lparr>returned = [(''vertebrae_C6'', 1, 3)], saved = None\<rparr>
   \<and> (\<exists>vert. load_vertebra scan (cutter [''vertebrae_C6'']) ''vertebrae_C6'' = Inr vert
          \<and> 0 < sum_all vert \<and> 3 < dim2 vert
          \<and> 3/10 < real_of_int (sum_0_1 vert ! 1) / real_of_int (sum_all vert)
          \<and> 3/10 < real_of_int (sum_0_1 vert ! 3) / real_of_int (sum_all vert)
          \<and> \<not> 3/10 < real_of_int (sum_0_1 vert ! 2) / real_of_int (sum_all vert))"
proof -
  have m: "map_of (returned \<lparr>returned = [(''vertebrae_C6'', 1::nat, 3::nat)], saved = None\<rparr>)
             ''vertebrae_C6'' = Some (1, 3)"
    by simp
  from range_ends_qualify [OF cut_scan_C6 m] obtain vert where
    v: "load_vertebra scan (cutter [''vertebrae_C6'']) ''vertebrae_C6'' = Inr vert"
    and q: "0 < sum_all vert" "3 < dim2 vert"
      "3/10 < real_of_int (sum_0_1 vert ! 1) / real_of_int (sum_all vert)"
      "3/10 < real_of_int (sum_0_1 vert ! 3) / real_of_int (sum_all vert)"
    by auto
  from v have ve: "vert = mask_on [1, 3]"
    by (simp add: load_scan)
  have "\<not> 3/10 < real_of_int (sum_0_1 vert ! 2) / real_of_int (sum_all vert)"
    unfolding ve sums_scan by simp
  with v q cut_scan_C6 show ?thesis by blast
qed

lemma vertebra_outcome_empty:
  "load_vertebra E c v = Inr vert \<Longrightarrow> sum_all vert \<le> 0 \<Longrightarrow> vertebra_outcome E c T v = Inr None"
  by (simp add: vertebra_outcome_def)

lemma vertebra_outcome_no_slice:
  assumes "load_vertebra E c v = Inr vert" and "0 < sum_all vert"
    and "arr_th T (sum_0_1 vert) (sum_all vert) = []"
  shows "vertebra_outcome E c T v =
           Inl (ValueError ''zero-size array to reduction operation minimum which has no identity'')"
  using assms by (simp add: vertebra_outcome_def slice_range_Inl)


lemma cut_scan_facts:
  "cut_chord scan (cutter [''vertebrae_C4'', ''vertebrae_C2'']) (1/50) False
     = Inr \<lparr>returned = [(''vertebrae_C2'', 2, 3)], saved = None\<rparr>"
  "cut_chord scan (cutter [''vertebrae_C2'', ''vertebrae_C3'']) (3/5) False
     = Inl (ValueError ''zero-size array to reduction operation minimum which has no identity'')"
  "cut_chord scan (cutter [''vertebrae_C3'']) (3/5) False
     = Inr \<lparr>returned = [(''vertebrae_C3'', 4, 4)], saved = None\<rparr>"
  "cut_chord scan (cutter [''vertebrae_C5'', ''vertebrae_C2'']) (1/50) False
     = Inl (RuntimeError ''seg/vertebrae_C5.nii.gz'')"
  "cut_chord scan (cutter [''vertebrae_C2'']) (1/50) False
     = Inr \<lparr>returned = [(''vertebrae_C2'', 2, 3)], saved = None\<rparr>"
  "cut_chord scan (cutter [''vertebrae_C2'']) 0 False
     = Inr \<lparr>returned = [(''vertebrae_C2'', 2, 3)], saved = None\<rparr>"
  "cut_chord scan (cutter [''vertebrae_C4'']) (6/5) False
     = Inr \<lparr>returned = [], saved = None\<rparr>"
  "cut_chord scan (cutter [''vertebrae_C2'']) (6/5) False
     = Inl (ValueError ''zero-size array to reduction operation minimum which has no identity'')"
  by (simp_all add: cut_chord_def cut_vertebra_outcome outcomes_low outcomes_other
        record_range_def cutter_simps)

section \<open>A vertebra with an empty mask\<close>

text \<open>
  Claim C8. For every \<open>T\<close>, a vertebra whose mask is read and has a total of 0 (the
  code tests \<open>total \<le> 0\<close>) is passed over by the loop body: no exception, and the
  dictionaries are left as they were. So when \<open>cut_chord\<close> returns, its dictionary has
  no entry for that vertebra, and no region of that name is written.
\<close>

theorem empty_mask_no_entry:
  assumes "load_vertebra E c v = Inr vert" and "sum_all vert \<le> 0"
  shows "cut_vertebra E c T chord v s = Inr s
         \<and> (cut_chord E c T save_as_RS = Inr out \<longrightarrow>
              map_of (returned out) v = None \<and> v \<notin> fst ` set (returned out))"
proof -
  have o: "vertebra_outcome E c T v = Inr None"
    using assms by (rule vertebra_outcome_empty)
  then have "cut_vertebra E c T chord v s = Inr s"
    by (simp add: cut_vertebra_outcome)
  moreover have "map_of (returned out) v = None" if "cut_chord E c T save_as_RS = Inr out"
    using o by (simp add: returned_cut_chord [OF that])
  ultimately show ?thesis
    by (auto simp: map_of_eq_None_iff)
qed

text \<open>The theorem on the vertebra \<open>vertebrae_C4\<close> of the scan, whose mask is empty.\<close>

theorem empty_mask_no_entry_witness:
  "load_vertebra scan (cutter [''vertebrae_C4'', ''vertebrae_C2'']) ''vertebrae_C4'' = Inr (mask_on [])
   \<and> sum_all (mask_on []) \<le> 0
   \<and> cut_chord scan (cutter [''vertebrae_C4'', ''vertebrae_C2'']) (1/50) False
        = Inr \<lparr>returned = [(''vertebrae_C2'', 2, 3)], saved = None\<rparr>
   \<and> ''vertebrae_C4'' \<notin> fst ` set (returned \<lparr>returned = [(''vertebrae_C2'', 2, 3)], saved = None\<rparr>)"
proof -
  have l: "load_vertebra scan (cutter [''vertebrae_C4'', ''vertebrae_C2'']) ''vertebrae_C4''
             = Inr (mask_on [])"
    by (rule load_scan)
  have z: "sum_all (mask_on []) \<le> 0"
    by (simp add: sums_scan)
  from empty_mask_no_entry [OF l z, of "1/50" None "\<lparr>values_d = [], all_seg_chord_masks = []\<rparr>" False
         "\<lparr>returned = [(''vertebrae_C2'', 2, 3)], saved = None\<rparr>"]
  show ?thesis
    using l z cut_scan_facts(1) by blast
qed

section \<open>A vertebra without a slice above the threshold\<close>

text \<open>
  Claim C1, as the specification states it, fails: with \<open>T = 0.6\<close> the mask of
  \<open>vertebrae_C2\<close> has a total of 4 and no slice above the threshold (each of its two
  slices holds half of it), and the call for the list \<open>vertebrae_C2, vertebrae_C3\<close> ends
  with the ValueError of \<^verbatim>\<open>arr_th.min()\<close>. Nothing is returned, although
  \<open>vertebrae_C3\<close>, alone, has the range (4, 4).
\<close>

theorem no_qualifying_slice_counterexample:
  "load_vertebra scan (cutter [''vertebrae_C2'', ''vertebrae_C3'']) ''vertebrae_C2'' = Inr (mask_on [2, 3])
   \<and> 0 < sum_all (mask_on [2, 3])
   \<and> arr_th (3/5) (sum_0_1 (mask_on [2, 3])) (sum_all (mask_on [2, 3])) = []
   \<and> cut_chord scan (cutter [''vertebrae_C2'', ''vertebrae_C3'']) (3/5) False
        = Inl (ValueError ''zero-size array to reduction operation minimum which has no identity'')
   \<and> cut_chord scan (cutter [''vertebrae_C3'']) (3/5) False
        = Inr \<lparr>returned = [(''vertebrae_C3'', 4, 4)], saved = None\<rparr>"
  unfolding sums_scan arr_th_scan
  using load_scan(2) cut_scan_facts(2) cut_scan_facts(3) by simp

text \<open>
  Claim C1, amended. When the list holds a vertebra whose mask has a positive total and no
  slice above \<open>T\<close>, the loop body raises, for that vertebra, the ValueError of the
  minimum of an empty array, and the exception is not caught: \<open>cut_chord\<close> ends with an
  exception and returns nothing, whatever the other vertebrae are.
\<close>

theorem no_qualifying_slice_aborts:
  assumes "v \<in> set (vertebrae c)"
    and "load_vertebra E c v = Inr vert" and "0 < sum_all vert"
    and "arr_th T (sum_0_1 vert) (sum_all vert) = []"
  shows "cut_vertebra E c T chord v s =
           Inl (ValueError ''zero-size array to reduction operation minimum which has no identity'')
         \<and> (\<exists>e. cut_chord E c T save_as_RS = Inl e)"
proof -
  have o: "vertebra_outcome E c T v =
             Inl (ValueError ''zero-size array to reduction operation minimum which has no identity'')"
    using assms(2-4) by (rule vertebra_outcome_no_slice)
  then show ?thesis
    using cut_chord_error [OF assms(1) o] by (simp add: cut_vertebra_outcome)
qed

text \<open>The amended claim on the list \<open>vertebrae_C2, vertebrae_C3\<close> with \<open>T = 0.6\<close>.\<close>

theorem no_qualifying_slice_aborts_witness:
  "''vertebrae_C2'' \<in> set (vertebrae (cutter [''vertebrae_C2'', ''vertebrae_C3'']))
   \<and> load_vertebra scan (cutter [''vertebrae_C2'', ''vertebrae_C3'']) ''vertebrae_C2'' = Inr (mask_on [2, 3])
   \<and> 0 < sum_all (mask_on [2, 3])
   \<and> arr_th (3/5) (sum_0_1 (mask_on [2, 3])) (sum_all (mask_on [2, 3])) = []
   \<and> (\<exists>e. cut_chord scan (cutter [''vertebrae_C2'', ''vertebrae_C3'']) (3/5) True = Inl e)"
proof -
  have m: "''vertebrae_C2'' \<in> set (vertebrae (cutter [''vertebrae_C2'', ''vertebrae_C3'']))"
    by (simp add: cutter_simps)
  have l: "load_vertebra scan (cutter [''vertebrae_C2'', ''vertebrae_C3'']) ''vertebrae_C2''
             = Inr (mask_on [2, 3])"
    by (rule load_scan)
  have p: "0 < sum_all (mask_on [2, 3])"
    unfolding sums_scan by simp
  have a: "arr_th (3/5) (sum_0_1 (mask_on [2, 3])) (sum_all (mask_on [2, 3])) = []"
    unfolding sums_scan by (rule arr_th_scan)
  from no_qualifying_slice_aborts [OF m l p a, of None "\<lparr>values_d = [], all_seg_chord_masks = []\<rparr>" True]
  show ?thesis
    using m l p a by blast
qed

section \<open>A vertebra without a mask file\<close>

text \<open>
  Claim C4, as the specification states it, fails: there is no file for \<open>vertebrae_C5\<close>
  in the scan, and the call for the list \<open>vertebrae_C5, vertebrae_C2\<close> ends with the
  exception of \<^verbatim>\<open>sitk.ReadImage\<close>; \<open>vertebrae_C2\<close>, alone, has the range (2, 3).
\<close>

theorem missing_mask_counterexample:
  "ReadImage scan ''seg/vertebrae_C5.nii.gz'' = None
   \<and> cut_chord scan (cutter [''vertebrae_C5'', ''vertebrae_C2'']) (1/50) False
        = Inl (RuntimeError ''seg/vertebrae_C5.nii.gz'')
   \<and> cut_chord scan (cutter [''vertebrae_C2'']) (1/50) False
        = Inr \<lparr>returned = [(''vertebrae_C2'', 2, 3)], saved = None\<rparr>"
  using cut_scan_facts(4) cut_scan_facts(5) by (simp add: scan_def)

text \<open>
  Claim C4, amended. \<open>cut_chord\<close> reads a mask file for every vertebra of the list and
  has no test for a file that is not there. When the list holds a vertebra whose file
  cannot be read, \<open>load_nifti\<close> raises in the loop body for that vertebra, and
  \<open>cut_chord\<close> ends with an exception and returns nothing. The vertebrae that the loop
  passes over without an error are those with a file whose mask is empty.
\<close>

theorem missing_mask_aborts:
  assumes "v \<in> set (vertebrae c)" and "seg_path c = Some sp"
    and "ReadImage E (join sp (v @ ''.nii.gz'')) = None"
  shows "cut_vertebra E c T chord v s = Inl (RuntimeError (join sp (v @ ''.nii.gz'')))
         \<and> (\<exists>e. cut_chord E c T save_as_RS = Inl e)"
proof -
  have o: "vertebra_outcome E c T v = Inl (RuntimeError (join sp (v @ ''.nii.gz'')))"
    using assms(2,3) by (simp add: vertebra_outcome_def load_vertebra_def load_nifti_def)
  then show ?thesis
    using cut_chord_error [OF assms(1) o] by (simp add: cut_vertebra_outcome)
qed

text \<open>The amended claim on the list \<open>vertebrae_C5, vertebrae_C2\<close>.\<close>

theorem missing_mask_aborts_witness:
  "''vertebrae_C5'' \<in> set (vertebrae (cutter [''vertebrae_C5'', ''vertebrae_C2'']))
   \<and> seg_path (cutter [''vertebrae_C5'', ''vertebrae_C2'']) = Some ''seg''
   \<and> ReadImage scan (join ''seg'' (''vertebrae_C5'' @ ''.nii.gz'')) = None
   \<and> (\<exists>e. cut_chord scan (cutter [''vertebrae_C5'', ''vertebrae_C2'']) (1/50) True = Inl e)"
proof -
  have m: "''vertebrae_C5'' \<in> set (vertebrae (cutter [''vertebrae_C5'', ''vertebrae_C2'']))"
    by (simp add: cutter_simps)
  have p: "seg_path (cutter [''vertebrae_C5'', ''vertebrae_C2'']) = Some ''seg''"
    by (simp add: cutter_simps)
  have r: "ReadImage scan (join ''seg'' (''vertebrae_C5'' @ ''.nii.gz'')) = None"
    by (simp add: scan_def join_def)
  from missing_mask_aborts [OF m p r, of "1/50" None "\<lparr>values_d = [], all_seg_chord_masks = []\<rparr>" True]
  show ?thesis
    using m p r by blast
qed

section \<open>A threshold outside the interval from 0 to 1\<close>




lemma arr_th_mono:
  assumes "T \<le> T'"
  shows "set (arr_th T' sl tot) \<subseteq> set (arr_th T sl tot)"
  using assms by (auto simp: set_arr_th)

lemma slice_range_mono:
  assumes T: "T \<le> T'" and r': "slice_range T' vert = Inr (minv', maxv')"
  shows "\<exists>minv maxv. slice_range T vert = Inr (minv, maxv) \<and> minv \<le> minv' \<and> maxv' \<le> maxv"
proof -
  let ?A = "arr_th T (sum_0_1 vert) (sum_all vert)"
  from slice_range_Inr [OF r'] arr_th_mono [OF T]
  have in': "minv' \<in> set ?A" "maxv' \<in> set ?A"
    by blast+
  then have "?A \<noteq> []" by auto
  from slice_range_ok [OF this] obtain minv maxv where r: "slice_range T vert = Inr (minv, maxv)"
    by (cases "slice_range T vert") auto
  from slice_range_Inr(3) [OF r] in' have "minv \<le> minv'" "maxv' \<le> maxv"
    by blast+
  with r show ?thesis by blast
qed

lemma vertebra_outcome_mono:
  assumes T: "T \<le> T'" and o': "vertebra_outcome E c T' v = Inr o'"
  shows "\<exists>o1. vertebra_outcome E c T v = Inr o1
           \<and> (\<forall>minv' maxv'. o' = Some (minv', maxv') \<longrightarrow>
                 (\<exists>minv maxv. o1 = Some (minv, maxv) \<and> minv \<le> minv' \<and> maxv' \<le> maxv))"
proof (cases "load_vertebra E c v")
  case (Inl e)
  with o' show ?thesis by (simp add: vertebra_outcome_def)
next
  case (Inr vert)
  show ?thesis
  proof (cases "sum_all vert \<le> 0")
    case True
    with Inr o' show ?thesis by (auto simp: vertebra_outcome_def)
  next
    case False
    with Inr o' obtain minv' maxv' where r': "slice_range T' vert = Inr (minv', maxv')"
      and o'_eq: "o' = Some (minv', maxv')"
      by (cases "slice_range T' vert") (auto simp: vertebra_outcome_def)
    from slice_range_mono [OF T r'] obtain minv maxv where
      "slice_range T vert = Inr (minv, maxv)" "minv \<le> minv'" "maxv' \<le> maxv"
      by blast
    with Inr False o'_eq show ?thesis by (simp add: vertebra_outcome_def)
  qed
qed

lemma cut_chord_ok_iff:
  "(\<exists>out. cut_chord E c T save_as_RS = Inr out) \<longleftrightarrow>
     (save_as_RS \<longrightarrow> vertebrae_RS_path c \<noteq> None
        \<and> (\<exists>ch. load_rs E (dcm_input_path c) (RS_path c) (chord_name c) = Inr ch))
     \<and> (\<forall>v\<in>set (vertebrae c). \<exists>r. vertebra_outcome E c T v = Inr r)"
proof (cases save_as_RS)
  case False
  then show ?thesis
    using cut_loop_ok [of E c T None "vertebrae c" "\<lparr>values_d = [], all_seg_chord_masks = []\<rparr>"]
    by (auto simp: cut_chord_def split: sum.splits)
next
  case True
  show ?thesis
  proof (cases "vertebrae_RS_path c")
    case None
    with True show ?thesis by (simp add: cut_chord_def)
  next
    case (Some d)
    show ?thesis
    proof (cases "load_rs E (dcm_input_path c) (RS_path c) (chord_name c)")
      case (Inl e)
      with True Some show ?thesis by (simp add: cut_chord_def)
    next
      case (Inr ch)
      with True Some show ?thesis
        using cut_loop_ok [of E c T "Some ch" "vertebrae c" "\<lparr>values_d = [], all_seg_chord_masks = []\<rparr>"]
        by (auto simp: cut_chord_def split: sum.splits)
    qed
  qed
qed

section \<open>Raising the threshold\<close>

text \<open>
  Claim C6. Take one scan, one cutter and two thresholds \<open>T \<le> T'\<close>. When the call
  with \<open>T'\<close> returns and holds the range \<open>(minv', maxv')\<close> for a vertebra, the call with
  \<open>T\<close> returns too and holds for that vertebra a range \<open>(minv, maxv)\<close> with
  \<open>minv \<le> minv'\<close> and \<open>maxv' \<le> maxv\<close>: the range under the higher threshold lies inside
  the range under the lower one. (A vertebra that loses its last slice above the
  threshold makes the call with \<open>T'\<close> raise; then there is no range under \<open>T'\<close> at
  all.)
\<close>

theorem raising_threshold_shrinks:
  assumes "T \<le> T'"
    and "cut_chord E c T' save_as_RS = Inr out'"
    and "map_of (returned out') v = Some (minv', maxv')"
  shows "\<exists>out minv maxv. cut_chord E c T save_as_RS = Inr out
           \<and> map_of (returned out) v = Some (minv, maxv)
           \<and> minv \<le> minv' \<and> maxv' \<le> maxv"
proof -
  from assms(2) have ok': "\<exists>out. cut_chord E c T' save_as_RS = Inr out"
    by blast
  have all: "\<forall>w\<in>set (vertebrae c). \<exists>r. vertebra_outcome E c T w = Inr r"
  proof
    fix w assume "w \<in> set (vertebrae c)"
    with ok' obtain r' where "vertebra_outcome E c T' w = Inr r'"
      unfolding cut_chord_ok_iff by blast
    from vertebra_outcome_mono [OF assms(1) this]
    show "\<exists>r. vertebra_outcome E c T w = Inr r" by auto
  qed
  with ok' have "\<exists>out. cut_chord E c T save_as_RS = Inr out"
    unfolding cut_chord_ok_iff by blast
  then obtain out where out: "cut_chord E c T save_as_RS = Inr out"
    by blast
  from assms(3) have v: "v \<in> set (vertebrae c)"
    and o': "vertebra_outcome E c T' v = Inr (Some (minv', maxv'))"
    by (auto simp: returned_cut_chord [OF assms(2)] split: if_splits sum.splits option.splits)
  from vertebra_outcome_mono [OF assms(1) o'] obtain minv maxv where
    "vertebra_outcome E c T v = Inr (Some (minv, maxv))" "minv \<le> minv'" "maxv' \<le> maxv"
    by auto
  with v out show ?thesis
    by (auto simp: returned_cut_chord [OF out])
qed

lemma cut_scan_C7:
  "cut_chord scan (cutter [''vertebrae_C7'']) (1/10) False
     = Inr \<lparr>returned = [(''vertebrae_C7'', 0, 2)], saved = None\<rparr>"
  "cut_chord scan (cutter [''vertebrae_C7'']) (3/10) False
     = Inr \<lparr>returned = [(''vertebrae_C7'', 1, 2)], saved = None\<rparr>"
  by (simp_all add: cut_chord_def cut_vertebra_outcome outcomes_other record_range_def cutter_simps)

text \<open>The theorem on the tapered mask, with \<open>T = 0.1\<close> and \<open>T' = 0.3\<close>: the range (0, 2)
  shrinks to (1, 2).\<close>

theorem raising_threshold_shrinks_witness:
  "(1/10 :: real) \<le> 3/10
   \<and> cut_chord scan (cutter [''vertebrae_C7'']) (3/10) False
        = Inr \<lparr>returned = [(''vertebrae_C7'', 1, 2)], saved = None\<rparr>
   \<and> cut_chord scan (cutter [''vertebrae_C7'']) (1/10) False
        = Inr \<lparr>returned = [(''vertebrae_C7'', 0, 2)], saved = None\<rparr>
   \<and> (\<exists>out minv maxv. cut_chord scan (cutter [''vertebrae_C7'']) (1/10) False = Inr out
          \<and> map_of (returned out) ''vertebrae_C7'' = Some (minv, maxv) \<and> minv \<le> 1 \<and> 2 \<le> maxv)"
proof -
  have t: "(1/10 :: real) \<le> 3/10"
    by simp
  have m: "map_of (returned \<lparr>returned = [(''vertebrae_C7'', 1::nat, 2::nat)], saved = None\<rparr>)
             ''vertebrae_C7'' = Some (1, 2)"
    by simp
  from raising_threshold_shrinks [OF t cut_scan_C7(2) m]
  show ?thesis
    using t cut_scan_C7 by blast
qed

lemma load_rs_scan_paths: "load_rs scan ''dcm'' (Some ''dcm/RS.dcm'') ''Moelle'' = Inr chord_2_4"
  by (simp add: load_rs_def scan_def)

lemma confined_scan_Suc: "sum_all (confine chord_2_4 0 (Suc 0)) = 0"
  using confined_scan(1) by simp

lemma cut_scan_saved:
  "cut_chord scan (cutter [''vertebrae_C1'', ''vertebrae_C2'']) (1/50) True
     = Inr \<lparr>returned = [(''vertebrae_C1'', 0, 1), (''vertebrae_C2'', 2, 3)],
            saved = Some (''out/vertebrae.dcm'',
                          [(''vertebrae_C2'', masked_greater_0 (confine chord_2_4 2 3))])\<rparr>"
  "cut_chord scan (cutter [''vertebrae_C2'']) (1/50) True
     = Inr \<lparr>returned = [(''vertebrae_C2'', 2, 3)],
            saved = Some (''out/vertebrae.dcm'',
                          [(''vertebrae_C2'', masked_greater_0 (confine chord_2_4 2 3))])\<rparr>"
  "cut_chord scan (cutter [''vertebrae_C3'']) (1/50) True
     = Inr \<lparr>returned = [(''vertebrae_C3'', 4, 4)], saved = Some (''out/vertebrae.dcm'', [])\<rparr>"
  by (simp_all add: cut_chord_def cut_vertebra_outcome outcomes_low load_rs_scan_paths
        record_range_def Let_def confined_scan confined_scan_Suc add_rois_def join_def cutter_simps)

section \<open>A confined chord without a voxel\<close>

text \<open>
  Claim C7. Let \<open>cut_chord\<close> return with \<^verbatim>\<open>save_as_RS\<close> true, and let \<open>v\<close> be a vertebra
  of the list whose mask has a positive total and the range \<open>(minv, maxv)\<close>. When the
  chord confined to that range, as the method builds it, has a sum of 0, no region
  named \<open>v\<close> is written to the saved file, and the returned dictionary still holds
  \<open>(minv, maxv)\<close> for \<open>v\<close>.
\<close>

theorem no_overlap_excluded:
  assumes "cut_chord E c T True = Inr out"
    and "load_rs E (dcm_input_path c) (RS_path c) (chord_name c) = Inr chord"
    and "v \<in> set (vertebrae c)"
    and "load_vertebra E c v = Inr vert" and "0 < sum_all vert"
    and "slice_range T vert = Inr (minv, maxv)"
    and "sum_all (confine chord minv maxv) = 0"
  shows "v \<notin> set (roi_names out) \<and> map_of (returned out) v = Some (minv, maxv)"
proof -
  have o: "vertebra_outcome E c T v = Inr (Some (minv, maxv))"
    using assms(4-6) by (simp add: vertebra_outcome_def)
  have "v \<notin> set (roi_names out)"
    using o assms(7) by (simp add: roi_names_cut_chord [OF assms(1,2)])
  moreover have "map_of (returned out) v = Some (minv, maxv)"
    using o assms(3) by (simp add: returned_cut_chord [OF assms(1)])
  ultimately show ?thesis by blast
qed

lemma slice_range_scan:
  "slice_range (1/50) (mask_on [0, 1]) = Inr (0, 1)"
  "slice_range (1/50) (mask_on [2, 3]) = Inr (2, 3)"
  "slice_range (1/50) (mask_on [4]) = Inr (4, 4)"
  by code_simp+

text \<open>The theorem on \<open>vertebrae_C1\<close>: its range is (0, 1), the chord starts at slice 2.\<close>

theorem no_overlap_excluded_witness:
  "cut_chord scan (cutter [''vertebrae_C1'', ''vertebrae_C2'']) (1/50) True
     = Inr \<lparr>returned = [(''vertebrae_C1'', 0, 1), (''vertebrae_C2'', 2, 3)],
            saved = Some (''out/vertebrae.dcm'',
                          [(''vertebrae_C2'', masked_greater_0 (confine chord_2_4 2 3))])\<rparr>
   \<and> 0 < sum_all (mask_on [0, 1])
   \<and> slice_range (1/50) (mask_on [0, 1]) = Inr (0, 1)
   \<and> sum_all (confine chord_2_4 0 1) = 0
   \<and> ''vertebrae_C1'' \<notin> set (roi_names
        \<lparr>returned = [(''vertebrae_C1'', 0, 1), (''vertebrae_C2'', 2, 3)],
         saved = Some (''out/vertebrae.dcm'',
                       [(''vertebrae_C2'', masked_greater_0 (confine chord_2_4 2 3))])\<rparr>)"
proof -
  have m: "''vertebrae_C1'' \<in> set (vertebrae (cutter [''vertebrae_C1'', ''vertebrae_C2'']))"
    by (simp add: cutter_simps)
  have p: "0 < sum_all (mask_on [0, 1])"
    unfolding sums_scan by simp
  from no_overlap_excluded [OF cut_scan_saved(1) load_rs_scan m load_scan(1) p
         slice_range_scan(1) confined_scan(1)]
  show ?thesis
    using p cut_scan_saved(1) slice_range_scan(1) confined_scan(1) by blast
qed

section \<open>A range of one slice\<close>

text \<open>
  Claim C10. The chord confined to a range with \<open>minv = maxv\<close> is zero everywhere,
  whatever the chord is: the slice \<^verbatim>\<open>minv:maxv\<close> is empty. So when \<open>cut_chord\<close> returns
  with \<^verbatim>\<open>save_as_RS\<close> true and the returned dictionary holds \<open>(z, z)\<close> for a vertebra, no
  region of that name is written to the saved file.
\<close>

theorem one_slice_range_excluded:
  assumes "cut_chord E c T True = Inr out"
    and "map_of (returned out) v = Some (z, z)"
  shows "v \<notin> set (roi_names out)
         \<and> (\<forall>chord i j k. item (confine chord z z) i j k = 0)
         \<and> (\<forall>chord. sum_all (confine chord z z) = 0)"
proof -
  from assms have o: "vertebra_outcome E c T v = Inr (Some (z, z))"
    by (auto simp: returned_cut_chord split: if_splits sum.splits option.splits)
  from cut_chord_Inr [OF assms(1)] obtain ch where
    ch: "load_rs E (dcm_input_path c) (RS_path c) (chord_name c) = Inr ch"
    by auto
  have "v \<notin> set (roi_names out)"
    using o by (simp add: roi_names_cut_chord [OF assms(1) ch] sum_all_confine_empty)
  moreover have "item (confine chord z z) i j k = 0" for chord i j k
    by (auto simp: item_confine)
  ultimately show ?thesis
    by (simp add: sum_all_confine_empty)
qed

text \<open>The theorem on \<open>vertebrae_C3\<close>: its range is (4, 4), and the chord is there on
  slice 4.\<close>

theorem one_slice_range_excluded_witness:
  "cut_chord scan (cutter [''vertebrae_C3'']) (1/50) True
     = Inr \<lparr>returned = [(''vertebrae_C3'', 4, 4)], saved = Some (''out/vertebrae.dcm'', [])\<rparr>
   \<and> item chord_2_4 0 0 4
   \<and> ''vertebrae_C3'' \<notin> set (roi_names
        \<lparr>returned = [(''vertebrae_C3'', 4, 4)], saved = Some (''out/vertebrae.dcm'', [])\<rparr>)
   \<and> sum_all (confine chord_2_4 4 4) = 0"
proof -
  have m: "map_of (returned \<lparr>returned = [(''vertebrae_C3'', 4::nat, 4::nat)],
                             saved = Some (''out/vertebrae.dcm'', [])\<rparr>) ''vertebrae_C3''
             = Some (4, 4)"
    by simp
  have c: "item chord_2_4 0 0 4"
    by (simp add: chord_2_4_def)
  from one_slice_range_excluded [OF cut_scan_saved(3) m]
  show ?thesis
    using c cut_scan_saved(3) by blast
qed

section \<open>The last slice of a range\<close>

text \<open>
  Claim C3 does not hold of the code. The range of \<open>vertebrae_C2\<close> is (2, 3) and the
  chord is there on both slices. The mask written for \<open>vertebrae_C2\<close> is the chord
  confined by \<^verbatim>\<open>chord_t[:,:,minv:maxv] = chord[:,:,minv:maxv]\<close>, which leaves out slice
  \<open>maxv\<close>: it has the voxel (0, 0, 2) and not the voxel (0, 0, 3).
\<close>

theorem confined_drops_last_slice:
  "cut_chord scan (cutter [''vertebrae_C2'']) (1/50) True
     = Inr \<lparr>returned = [(''vertebrae_C2'', 2, 3)],
            saved = Some (''out/vertebrae.dcm'',
                          [(''vertebrae_C2'', masked_greater_0 (confine chord_2_4 2 3))])\<rparr>
   \<and> item chord_2_4 0 0 2 \<and> item chord_2_4 0 0 3
   \<and> item (confine chord_2_4 2 3) 0 0 2 = 1
   \<and> item (confine chord_2_4 2 3) 0 0 3 = 0
   \<and> item (masked_greater_0 (confine chord_2_4 2 3)) 0 0 2
   \<and> \<not> item (masked_greater_0 (confine chord_2_4 2 3)) 0 0 3"
  using cut_scan_saved(2)
  by (simp add: item_confine masked_greater_0_def chord_2_4_def)

end
